theory Spec2Isabelle
  imports Complex_Main
begin

section \<open>QuEST\_common.c: hardware-agnostic gate parameterisation\<close>

text \<open>
  The C type \<open>REAL\<close> is \<open>float\<close>, \<open>double\<close> or \<open>long double\<close>, chosen by \<open>QuEST_PREC\<close>.
  The functions are given twice. First over the exact reals, which is what their
  expressions denote: there rounding, overflow, infinities and NaN do not exist, an
  equality is an equality of exact values, and where the C code divides by a magnitude that
  is zero, and so produces non-finite numbers, the result is \<open>None\<close>. Then, for the
  rotation and the T gate, under the floating-point arithmetic of the \<open>float\<close> and \<open>double\<close>
  builds, in the section on the floating-point builds; these have the suffix \<open>_fp\<close>.

  The integer members (\<open>int\<close>, \<open>long long int\<close>) are modelled by \<open>int\<close>: the only
  arithmetic on them is the loop index of the export, which stays below
  \<open>numAmpsPerChunk\<close> and cannot overflow.

  Field names: the members \<open>x, y, z\<close> of \<open>Vector\<close> are \<open>x_V, y_V, z_V\<close>; the members
  \<open>real, imag\<close> of \<open>Complex\<close> are \<open>real_C, imag_C\<close>; those of the amplitude arrays
  \<open>ComplexArray\<close> are \<open>real_A, imag_A\<close>. In the floating-point records they end in \<open>_F\<close>.
\<close>

type_synonym REAL = real

record Vector =
  x_V :: REAL
  y_V :: REAL
  z_V :: REAL

record Complex =
  real_C :: REAL
  imag_C :: REAL

record ComplexArray =
  real_A :: "REAL list"
  imag_A :: "REAL list"

record QubitRegister =
  stateVec :: ComplexArray
  numQubitsInStateVec :: int
  numAmpsPerChunk :: int
  numChunks :: int
  chunkId :: int

subsection \<open>Vector algebra\<close>

definition getVectorMagnitude :: "Vector \<Rightarrow> REAL" where
  "getVectorMagnitude vec = sqrt (x_V vec * x_V vec + y_V vec * y_V vec + z_V vec * z_V vec)"

definition getUnitVector :: "Vector \<Rightarrow> Vector option" where
  \<comment> \<open>\<open>None\<close>: the magnitude is zero and every component of the C result is \<open>0/0\<close>.\<close>
  "getUnitVector vec =
     (let mag = getVectorMagnitude vec
      in if mag = 0 then None
         else Some \<lparr>x_V = x_V vec / mag, y_V = y_V vec / mag, z_V = z_V vec / mag\<rparr>)"

subsection \<open>Calls into the external kernels\<close>

text \<open>
  The amplitude-update kernels are not part of this file. A dispatch function is modelled
  by the one kernel call it makes: the entry point and the arguments it passes.
\<close>

datatype kernel_call =
    statevec_phaseShiftByTerm QubitRegister int Complex
  | statevec_compactUnitary QubitRegister int Complex Complex
  | statevec_controlledCompactUnitary QubitRegister int int Complex Complex

subsection \<open>Rotations\<close>

definition getAlphaBetaFromRotation :: "REAL \<Rightarrow> Vector \<Rightarrow> (Complex \<times> Complex) option" where
  \<comment> \<open>The C function writes through the pointers \<open>alpha\<close> and \<open>beta\<close>; the model returns the pair.\<close>
  "getAlphaBetaFromRotation angle axis =
     (case getUnitVector axis of
        None \<Rightarrow> None
      | Some unitAxis \<Rightarrow>
          Some (\<lparr>real_C = cos (angle / 2), imag_C = - sin (angle / 2) * z_V unitAxis\<rparr>,
                \<lparr>real_C = sin (angle / 2) * y_V unitAxis, imag_C = - sin (angle / 2) * x_V unitAxis\<rparr>))"

definition statevec_rotateAroundAxis :: "QubitRegister \<Rightarrow> int \<Rightarrow> REAL \<Rightarrow> Vector \<Rightarrow> kernel_call option" where
  \<comment> \<open>\<open>None\<close>: the axis has zero length and the kernel receives non-finite parameters.\<close>
  "statevec_rotateAroundAxis qureg rotQubit angle axis =
     (case getAlphaBetaFromRotation angle axis of
        None \<Rightarrow> None
      | Some (alpha, beta) \<Rightarrow> Some (statevec_compactUnitary qureg rotQubit alpha beta))"

definition statevec_rotateAroundAxisConj :: "QubitRegister \<Rightarrow> int \<Rightarrow> REAL \<Rightarrow> Vector \<Rightarrow> kernel_call option" where
  "statevec_rotateAroundAxisConj qureg rotQubit angle axis =
     (case getAlphaBetaFromRotation angle axis of
        None \<Rightarrow> None
      | Some (alpha, beta) \<Rightarrow>
          (let alpha = alpha\<lparr>imag_C := imag_C alpha * - 1\<rparr>;
               beta = beta\<lparr>imag_C := imag_C beta * - 1\<rparr>
           in Some (statevec_compactUnitary qureg rotQubit alpha beta)))"

definition statevec_controlledRotateAroundAxis ::
    "QubitRegister \<Rightarrow> int \<Rightarrow> int \<Rightarrow> REAL \<Rightarrow> Vector \<Rightarrow> kernel_call option" where
  "statevec_controlledRotateAroundAxis qureg controlQubit targetQubit angle axis =
     (case getAlphaBetaFromRotation angle axis of
        None \<Rightarrow> None
      | Some (alpha, beta) \<Rightarrow>
          Some (statevec_controlledCompactUnitary qureg controlQubit targetQubit alpha beta))"

definition statevec_controlledRotateAroundAxisConj ::
    "QubitRegister \<Rightarrow> int \<Rightarrow> int \<Rightarrow> REAL \<Rightarrow> Vector \<Rightarrow> kernel_call option" where
  "statevec_controlledRotateAroundAxisConj qureg controlQubit targetQubit angle axis =
     (case getAlphaBetaFromRotation angle axis of
        None \<Rightarrow> None
      | Some (alpha, beta) \<Rightarrow>
          (let alpha = alpha\<lparr>imag_C := imag_C alpha * - 1\<rparr>;
               beta = beta\<lparr>imag_C := imag_C beta * - 1\<rparr>
           in Some (statevec_controlledCompactUnitary qureg controlQubit targetQubit alpha beta)))"

definition statevec_rotateX :: "QubitRegister \<Rightarrow> int \<Rightarrow> REAL \<Rightarrow> kernel_call option" where
  "statevec_rotateX qureg rotQubit angle =
     (let unitAxis = \<lparr>x_V = 1, y_V = 0, z_V = 0\<rparr>
      in statevec_rotateAroundAxis qureg rotQubit angle unitAxis)"

definition statevec_rotateY :: "QubitRegister \<Rightarrow> int \<Rightarrow> REAL \<Rightarrow> kernel_call option" where
  "statevec_rotateY qureg rotQubit angle =
     (let unitAxis = \<lparr>x_V = 0, y_V = 1, z_V = 0\<rparr>
      in statevec_rotateAroundAxis qureg rotQubit angle unitAxis)"

definition statevec_rotateZ :: "QubitRegister \<Rightarrow> int \<Rightarrow> REAL \<Rightarrow> kernel_call option" where
  "statevec_rotateZ qureg rotQubit angle =
     (let unitAxis = \<lparr>x_V = 0, y_V = 0, z_V = 1\<rparr>
      in statevec_rotateAroundAxis qureg rotQubit angle unitAxis)"

definition statevec_controlledRotateX :: "QubitRegister \<Rightarrow> int \<Rightarrow> int \<Rightarrow> REAL \<Rightarrow> kernel_call option" where
  "statevec_controlledRotateX qureg controlQubit targetQubit angle =
     (let unitAxis = \<lparr>x_V = 1, y_V = 0, z_V = 0\<rparr>
      in statevec_controlledRotateAroundAxis qureg controlQubit targetQubit angle unitAxis)"

definition statevec_controlledRotateY :: "QubitRegister \<Rightarrow> int \<Rightarrow> int \<Rightarrow> REAL \<Rightarrow> kernel_call option" where
  "statevec_controlledRotateY qureg controlQubit targetQubit angle =
     (let unitAxis = \<lparr>x_V = 0, y_V = 1, z_V = 0\<rparr>
      in statevec_controlledRotateAroundAxis qureg controlQubit targetQubit angle unitAxis)"

definition statevec_controlledRotateZ :: "QubitRegister \<Rightarrow> int \<Rightarrow> int \<Rightarrow> REAL \<Rightarrow> kernel_call option" where
  "statevec_controlledRotateZ qureg controlQubit targetQubit angle =
     (let unitAxis = \<lparr>x_V = 0, y_V = 0, z_V = 1\<rparr>
      in statevec_controlledRotateAroundAxis qureg controlQubit targetQubit angle unitAxis)"

subsection \<open>Phase gates\<close>

definition statevec_phaseShift :: "QubitRegister \<Rightarrow> int \<Rightarrow> REAL \<Rightarrow> kernel_call" where
  "statevec_phaseShift qureg targetQubit angle =
     (let term = \<lparr>real_C = cos angle, imag_C = sin angle\<rparr>
      in statevec_phaseShiftByTerm qureg targetQubit term)"

definition statevec_sigmaZ :: "QubitRegister \<Rightarrow> int \<Rightarrow> kernel_call" where
  "statevec_sigmaZ qureg targetQubit =
     (let term = \<lparr>real_C = - 1, imag_C = 0\<rparr>
      in statevec_phaseShiftByTerm qureg targetQubit term)"

definition statevec_sGate :: "QubitRegister \<Rightarrow> int \<Rightarrow> kernel_call" where
  "statevec_sGate qureg targetQubit =
     (let term = \<lparr>real_C = 0, imag_C = 1\<rparr>
      in statevec_phaseShiftByTerm qureg targetQubit term)"

definition statevec_tGate :: "QubitRegister \<Rightarrow> int \<Rightarrow> kernel_call" where
  "statevec_tGate qureg targetQubit =
     (let term = \<lparr>real_C = 1 / sqrt 2, imag_C = 1 / sqrt 2\<rparr>
      in statevec_phaseShiftByTerm qureg targetQubit term)"

definition statevec_sGateConj :: "QubitRegister \<Rightarrow> int \<Rightarrow> kernel_call" where
  "statevec_sGateConj qureg targetQubit =
     (let term = \<lparr>real_C = 0, imag_C = - 1\<rparr>
      in statevec_phaseShiftByTerm qureg targetQubit term)"

definition statevec_tGateConj :: "QubitRegister \<Rightarrow> int \<Rightarrow> kernel_call" where
  "statevec_tGateConj qureg targetQubit =
     (let term = \<lparr>real_C = 1 / sqrt 2, imag_C = - 1 / sqrt 2\<rparr>
      in statevec_phaseShiftByTerm qureg targetQubit term)"

subsection \<open>Undefined behaviour\<close>

text \<open>
  The amplitude arrays are lists; a read outside the list is the C program reading
  outside the allocation. A standard-library call on a null stream is undefined too.
  Both are results of the model.
\<close>

datatype error = OutOfBounds | NullStream

definition array_read :: "REAL list \<Rightarrow> int \<Rightarrow> error + REAL" where
  "array_read arr index =
     (if 0 \<le> index \<and> index < int (length arr) then Inr (arr ! nat index) else Inl OutOfBounds)"

subsection \<open>Probability of one amplitude\<close>

text \<open>
  Modelled from the spec: \<open>statevec_getRealAmpEl\<close> and \<open>statevec_getImagAmpEl\<close> are defined
  by the hardware back end, which is not in this file. The spec gives them as read-only
  accessors into the local amplitude partition, which is indexed from 0 to
  \<open>numAmpsPerChunk - 1\<close>.
\<close>

definition statevec_getRealAmpEl :: "QubitRegister \<Rightarrow> int \<Rightarrow> error + REAL" where
  "statevec_getRealAmpEl qureg index = array_read (real_A (stateVec qureg)) index"

definition statevec_getImagAmpEl :: "QubitRegister \<Rightarrow> int \<Rightarrow> error + REAL" where
  "statevec_getImagAmpEl qureg index = array_read (imag_A (stateVec qureg)) index"

definition statevec_getProbEl :: "QubitRegister \<Rightarrow> int \<Rightarrow> error + REAL \<times> QubitRegister" where
  \<comment> \<open>The result pairs the returned value with the register as the call leaves it.\<close>
  "statevec_getProbEl qureg index =
     (case statevec_getRealAmpEl qureg index of
        Inl e \<Rightarrow> Inl e
      | Inr real' \<Rightarrow>
          (case statevec_getImagAmpEl qureg index of
             Inl e \<Rightarrow> Inl e
           | Inr imag' \<Rightarrow> Inr (real' * real' + imag' * imag', qureg)))"

subsection \<open>Export of the local amplitudes\<close>

text \<open>
  The file system is reached through \<open>sprintf\<close>, \<open>fopen\<close>, \<open>fprintf\<close> and \<open>fclose\<close>.
  The model records the calls made on streams, in order: for \<open>fopen\<close> the file name, the
  mode and the stream returned (\<open>None\<close> is the null pointer), for \<open>fprintf\<close> the stream,
  the format and the values of the arguments, for \<open>fclose\<close> the stream. Whether \<open>fopen\<close>
  succeeds is decided outside the program: \<open>fopen_ret\<close> is a parameter. The return values
  of \<open>fprintf\<close> and \<open>fclose\<close> are discarded by the code and are not part of the model.
\<close>

type_synonym FILE = nat

datatype libc_call =
    Fopen string string "FILE option"
  | Fprintf FILE string "REAL list"
  | Fclose FILE

definition fprintf :: "FILE option \<Rightarrow> string \<Rightarrow> REAL list \<Rightarrow> libc_call list \<Rightarrow> error + libc_call list" where
  "fprintf stream format args tr =
     (case stream of None \<Rightarrow> Inl NullStream | Some f \<Rightarrow> Inr (tr @ [Fprintf f format args]))"

definition fclose :: "FILE option \<Rightarrow> libc_call list \<Rightarrow> error + libc_call list" where
  "fclose stream tr =
     (case stream of None \<Rightarrow> Inl NullStream | Some f \<Rightarrow> Inr (tr @ [Fclose f]))"

text \<open>The conversion \<open>%d\<close> of \<open>sprintf\<close>: decimal digits, with a minus sign below zero.\<close>

function dec_nat :: "nat \<Rightarrow> string" where
  "dec_nat n = (if n < 10 then [''0123456789'' ! n] else dec_nat (n div 10) @ [''0123456789'' ! (n mod 10)])"
  by pat_completeness auto
termination
  by (relation "measure id") auto

declare dec_nat.simps [simp del]

definition dec_int :: "int \<Rightarrow> string" where
  "dec_int i = (if i < 0 then CHR ''-'' # dec_nat (nat (- i)) else dec_nat (nat i))"

function reportState_loop ::
    "int \<Rightarrow> FILE option \<Rightarrow> QubitRegister \<Rightarrow> int \<Rightarrow> libc_call list \<Rightarrow> error + libc_call list" where
  "reportState_loop QuEST_PREC state qureg index tr =
     (if index < numAmpsPerChunk qureg then
        (case
           (if QuEST_PREC = 1 \<or> QuEST_PREC = 2 then
              (case array_read (real_A (stateVec qureg)) index of
                 Inl e \<Rightarrow> Inl e
               | Inr re \<Rightarrow>
                   (case array_read (imag_A (stateVec qureg)) index of
                      Inl e \<Rightarrow> Inl e
                    | Inr im \<Rightarrow> fprintf state ''%.12f, %.12f\<newline>'' [re, im] tr))
            else if QuEST_PREC = 4 then
              (case array_read (real_A (stateVec qureg)) index of
                 Inl e \<Rightarrow> Inl e
               | Inr re \<Rightarrow>
                   (case array_read (imag_A (stateVec qureg)) index of
                      Inl e \<Rightarrow> Inl e
                    | Inr im \<Rightarrow> fprintf state ''%.12Lf, %.12Lf\<newline>'' [re, im] tr))
            else Inr tr)
         of
           Inl e \<Rightarrow> Inl e
         | Inr tr' \<Rightarrow> reportState_loop QuEST_PREC state qureg (index + 1) tr')
      else Inr tr)"
  by pat_completeness auto
termination
  by (relation "measure (\<lambda>(p, s, qureg, index, tr). nat (numAmpsPerChunk qureg - index))") auto

declare reportState_loop.simps [simp del]

definition reportState :: "(string \<Rightarrow> FILE option) \<Rightarrow> int \<Rightarrow> QubitRegister \<Rightarrow> error + libc_call list" where
  \<comment> \<open>\<open>QuEST_PREC\<close> is the build-time precision setting of \<open>QuEST_precision.h\<close>. The file
      name has at most 26 characters and fits the buffer of 100.\<close>
  "reportState fopen_ret QuEST_PREC qureg =
     (let filename = ''state_rank_'' @ dec_int (chunkId qureg) @ ''.csv'';
          state = fopen_ret filename;
          tr = [Fopen filename ''w'' state]
      in case (if chunkId qureg = 0 then fprintf state ''real, imag\<newline>'' [] tr else Inr tr) of
           Inl e \<Rightarrow> Inl e
         | Inr tr \<Rightarrow>
             (case reportState_loop QuEST_PREC state qureg 0 tr of
                Inl e \<Rightarrow> Inl e
              | Inr tr \<Rightarrow> fclose state tr))"

section \<open>The floating-point builds\<close>

text \<open>
  In the program \<open>REAL\<close> is a binary floating-point type. This section gives the
  expressions of the rotation and of the T gate under IEEE 754 arithmetic, for the builds in
  which \<open>REAL\<close> is \<open>float\<close> (\<open>QuEST_PREC = 1\<close>, format \<open>binary32\<close>) and \<open>double\<close>
  (\<open>QuEST_PREC = 2\<close>, format \<open>binary64\<close>). Every operation rounds once, to nearest with
  ties to even, to the type that C gives it: \<open>REAL\<close> for arithmetic on \<open>REAL\<close> operands,
  \<open>double\<close> as soon as a \<open>double\<close> operand or a call of \<open>sqrt\<close>, \<open>sin\<close> or \<open>cos\<close> is
  involved; an assignment to a \<open>REAL\<close> converts. A \<open>float\<close> is a \<open>double\<close>, so a promotion
  changes no value and is not written.

  A value is a sign (\<open>True\<close> is minus) with a magnitude, an infinity or NaN; both zeros
  are values. The library functions \<open>sqrt\<close>, \<open>sin\<close> and \<open>cos\<close> are taken as correctly
  rounded. IEEE 754 requires this of \<open>sqrt\<close>; for \<open>sin\<close> and \<open>cos\<close> a C library may differ
  in the last place of the \<open>double\<close>, and no result below depends on that place.
\<close>

datatype fp = Fin bool real | Inf bool | NaN

record format =
  prec :: nat
  emax :: int

definition binary32 :: format where
  "binary32 = \<lparr>prec = 24, emax = 127\<rparr>"

definition binary64 :: format where
  "binary64 = \<lparr>prec = 53, emax = 1023\<rparr>"

definition emin :: "format \<Rightarrow> int" where
  "emin f = 1 - emax f"

definition round_ties_even :: "real \<Rightarrow> int" where
  "round_ties_even y =
     (let n = \<lfloor>y\<rfloor>; d = y - of_int n
      in if d < 1 / 2 then n else if 1 / 2 < d then n + 1 else if even n then n else n + 1)"

definition quantum :: "format \<Rightarrow> real \<Rightarrow> real" where
  \<comment> \<open>The spacing of the format's values around the magnitude \<open>m\<close>; below \<open>2 powi emin\<close>
      it is that of the subnormal numbers.\<close>
  "quantum f m = 2 powi (max \<lfloor>log 2 m\<rfloor> (emin f) - (int (prec f) - 1))"

definition round_mag :: "format \<Rightarrow> real \<Rightarrow> real option" where
  \<comment> \<open>The magnitude \<open>m\<close> rounded to the format; \<open>None\<close> is overflow.\<close>
  "round_mag f m =
     (if m = 0 then Some 0
      else let q = quantum f m; r = of_int (round_ties_even (m / q)) * q
           in if r < 2 powi (emax f + 1) then Some r else None)"

definition fp_round :: "format \<Rightarrow> bool \<Rightarrow> real \<Rightarrow> fp" where
  "fp_round f s m = (case round_mag f m of Some r \<Rightarrow> Fin s r | None \<Rightarrow> Inf s)"



















section \<open>Notions used in the statements\<close>



definition valid_register :: "QubitRegister \<Rightarrow> bool" where
  "valid_register qureg \<longleftrightarrow>
     int (length (real_A (stateVec qureg))) = numAmpsPerChunk qureg
     \<and> int (length (imag_A (stateVec qureg))) = numAmpsPerChunk qureg"

text \<open>The data line that the export writes for the amplitude at index \<open>i\<close>, if any.\<close>

definition data_line :: "int \<Rightarrow> FILE \<Rightarrow> QubitRegister \<Rightarrow> nat \<Rightarrow> libc_call list" where
  "data_line QuEST_PREC f qureg i =
     (if QuEST_PREC = 1 \<or> QuEST_PREC = 2 then
        [Fprintf f ''%.12f, %.12f\<newline>'' [real_A (stateVec qureg) ! i, imag_A (stateVec qureg) ! i]]
      else if QuEST_PREC = 4 then
        [Fprintf f ''%.12Lf, %.12Lf\<newline>'' [real_A (stateVec qureg) ! i, imag_A (stateVec qureg) ! i]]
      else [])"

fun writes_to :: "FILE \<Rightarrow> libc_call \<Rightarrow> bool" where
  "writes_to f (Fprintf g format args) = (g = f)"
| "writes_to f (Fopen filename mode stream) = False"
| "writes_to f (Fclose g) = False"

text \<open>
  Concrete inputs: the register of the export scenario (one chunk, amplitudes \<open>(1,0)\<close> and
  \<open>(0,0)\<close>), a register whose first amplitude is \<open>(0.6, 0.8)\<close>, the register of chunk
  12 of 16 with one amplitude, an \<open>fopen\<close> that fails and one that returns stream 3.
\<close>

definition export_register :: QubitRegister where
  "export_register =
     \<lparr>stateVec = \<lparr>real_A = [1, 0], imag_A = [0, 0]\<rparr>, numQubitsInStateVec = 1,
      numAmpsPerChunk = 2, numChunks = 1, chunkId = 0\<rparr>"

definition injected_register :: QubitRegister where
  "injected_register =
     \<lparr>stateVec = \<lparr>real_A = [6 / 10, 0], imag_A = [8 / 10, 0]\<rparr>, numQubitsInStateVec = 1,
      numAmpsPerChunk = 2, numChunks = 1, chunkId = 0\<rparr>"

definition later_chunk_register :: QubitRegister where
  "later_chunk_register =
     \<lparr>stateVec = \<lparr>real_A = [0], imag_A = [- 1]\<rparr>, numQubitsInStateVec = 4,
      numAmpsPerChunk = 1, numChunks = 16, chunkId = 12\<rparr>"

definition fopen_fails :: "string \<Rightarrow> FILE option" where
  "fopen_fails filename = None"

definition fopen_stream3 :: "string \<Rightarrow> FILE option" where
  "fopen_stream3 filename = Some 3"



text \<open>
  Reading a decimal numeral back: digits, with an optional leading minus sign. It says
  which integer a file name carries.
\<close>

definition digit_val :: "char \<Rightarrow> nat option" where
  "digit_val c =
     (if (48::nat) \<le> of_char c \<and> of_char c \<le> (57::nat) then Some (of_char c - 48) else None)"

fun read_nat :: "nat \<Rightarrow> string \<Rightarrow> nat option" where
  "read_nat acc [] = Some acc"
| "read_nat acc (c # cs) =
     (case digit_val c of None \<Rightarrow> None | Some d \<Rightarrow> read_nat (10 * acc + d) cs)"

definition read_dec :: "string \<Rightarrow> int option" where
  "read_dec s =
     (case s of
        [] \<Rightarrow> None
      | c # cs \<Rightarrow>
          if c = CHR ''-'' then (if cs = [] then None else map_option (\<lambda>n. - int n) (read_nat 0 cs))
          else map_option int (read_nat 0 s))"

text \<open>
  Floating-point inputs: \<open>2\<^sup>-\<^sup>6\<^sup>0\<^sup>0\<close> and \<open>2\<^sup>6\<^sup>0\<^sup>0\<close>, which are values of \<open>double\<close>, as the first
  component of an axis, and the unit axes X and Y.
\<close>

definition tiny :: real where
  "tiny = 1 / 2 ^ 600"

definition huge :: real where
  "huge = 2 ^ 600"





section \<open>Properties\<close>

subsection \<open>Rounding\<close>

lemma round_ties_even_eqI:
  assumes "\<bar>y - of_int k\<bar> < 1 / 2"
  shows "round_ties_even y = k"
proof (cases "of_int k \<le> y")
  case True
  then have "\<lfloor>y\<rfloor> = k" using assms by (intro floor_unique) auto
  then show ?thesis using assms True by (simp add: round_ties_even_def Let_def)
next
  case False
  then have "\<lfloor>y\<rfloor> = k - 1" using assms by (intro floor_unique) auto
  then show ?thesis using assms False by (simp add: round_ties_even_def Let_def)
qed


lemma floor_log2_eqI:
  assumes "2 powi e \<le> m" "m < 2 powi (e + 1)"
  shows "\<lfloor>log 2 m\<rfloor> = e"
proof -
  have pos: "0 < m" using assms(1) by (smt (verit) zero_less_power_int)
  have "(2::real) powr (of_int e) = 2 powi e" "(2::real) powr (of_int (e + 1)) = 2 powi (e + 1)"
    by (rule powr_real_of_int'; simp)+
  then have "2 powr (of_int e) \<le> m \<and> m < 2 powr (of_int e + 1)"
    using assms by simp
  then show ?thesis
    using floor_log_eq_powr_iff [of m 2 e] pos by simp
qed

lemma quantum_normal:
  assumes "2 powi e \<le> m" "m < 2 powi (e + 1)" "emin f \<le> e"
  shows "quantum f m = 2 powi (e - (int (prec f) - 1))"
  using floor_log2_eqI [OF assms(1,2)] assms(3) by (simp add: quantum_def max_def)


text \<open>
  A magnitude in the binade of \<open>2 powi e\<close> that lies less than half a quantum from \<open>k\<close>
  quanta rounds to \<open>k\<close> quanta, or overflows.
\<close>

lemma round_mag_normalI:
  assumes "2 powi e \<le> m" "m < 2 powi (e + 1)" "emin f \<le> e"
    and "\<bar>m / 2 powi (e - (int (prec f) - 1)) - of_int k\<bar> < 1 / 2"
    and "of_int k * 2 powi (e - (int (prec f) - 1)) < (2::real) powi (emax f + 1)"
  shows "round_mag f m = Some (of_int k * 2 powi (e - (int (prec f) - 1)))"
proof -
  have pos: "m \<noteq> 0" using assms(1) by (smt (verit) zero_less_power_int)
  show ?thesis
    using pos assms(5) quantum_normal [OF assms(1-3)] round_ties_even_eqI [OF assms(4)]
    by (simp add: round_mag_def Let_def)
qed






lemma round_mag_0 [simp]: "round_mag f 0 = Some 0"
  by (simp add: round_mag_def)

lemma round64_1: "round_mag binary64 1 = Some 1"
  using round_mag_normalI [of 0 1 binary64 "2 ^ 52"]
  by (simp add: binary64_def emin_def)

lemma round32_1: "round_mag binary32 1 = Some 1"
  using round_mag_normalI [of 0 1 binary32 "2 ^ 23"]
  by (simp add: binary32_def emin_def)

lemma fp_round_0 [simp]: "fp_round f s 0 = Fin s 0"
  by (simp add: fp_round_def)

lemma fp_round64_1 [simp]: "fp_round binary64 s 1 = Fin s 1"
  by (simp add: fp_round_def round64_1)

lemma fp_round32_1 [simp]: "fp_round binary32 s 1 = Fin s 1"
  by (simp add: fp_round_def round32_1)





lemma tiny_huge_nonzero [simp]: "tiny \<noteq> 0" "huge \<noteq> 0"
  by (simp_all add: tiny_def huge_def)

subsection \<open>The values of \<open>sin 1\<close> and \<open>cos 1\<close>\<close>










subsection \<open>The value of \<open>1/sqrt(2)\<close>\<close>






subsection \<open>The rotation at the floating-point inputs\<close>










subsection \<open>Normalisation of the axis\<close>

lemma sq3_pos:
  fixes a b c :: real
  assumes "a \<noteq> 0 \<or> b \<noteq> 0 \<or> c \<noteq> 0"
  shows "0 < a * a + b * b + c * c"
proof -
  have "0 \<le> a * a" "0 \<le> b * b" "0 \<le> c * c" by simp_all
  moreover have "0 < a * a \<or> 0 < b * b \<or> 0 < c * c"
    using assms by (auto simp add: zero_less_mult_iff)
  ultimately show ?thesis by linarith
qed

lemma getVectorMagnitude_pos:
  assumes "x_V axis \<noteq> 0 \<or> y_V axis \<noteq> 0 \<or> z_V axis \<noteq> 0"
  shows "0 < getVectorMagnitude axis"
  using sq3_pos [OF assms] by (simp add: getVectorMagnitude_def)

lemma getUnitVector_nonzero:
  assumes "x_V axis \<noteq> 0 \<or> y_V axis \<noteq> 0 \<or> z_V axis \<noteq> 0"
  shows "getUnitVector axis =
           Some \<lparr>x_V = x_V axis / getVectorMagnitude axis,
                 y_V = y_V axis / getVectorMagnitude axis,
                 z_V = z_V axis / getVectorMagnitude axis\<rparr>"
  using getVectorMagnitude_pos [OF assms] by (simp add: getUnitVector_def Let_def)


lemma getAlphaBeta_nonzero:
  assumes "x_V axis \<noteq> 0 \<or> y_V axis \<noteq> 0 \<or> z_V axis \<noteq> 0"
  shows "getAlphaBetaFromRotation angle axis =
           Some (\<lparr>real_C = cos (angle / 2),
                   imag_C = - sin (angle / 2) * (z_V axis / getVectorMagnitude axis)\<rparr>,
                 \<lparr>real_C = sin (angle / 2) * (y_V axis / getVectorMagnitude axis),
                   imag_C = - sin (angle / 2) * (x_V axis / getVectorMagnitude axis)\<rparr>)"
  by (simp add: getAlphaBetaFromRotation_def getUnitVector_nonzero [OF assms])






subsection \<open>Conjugated rotations\<close>

text \<open>
  Claim C2. For every angle and every non-zero axis, \<open>statevec_rotateAroundAxisConj\<close> and
  \<open>statevec_controlledRotateAroundAxisConj\<close> derive the same \<open>(alpha, beta)\<close> at the same
  angle as \<open>statevec_rotateAroundAxis\<close> and \<open>statevec_controlledRotateAroundAxis\<close>, negate
  the imaginary part of \<open>alpha\<close> and of \<open>beta\<close>, and call the same kernel entry point
  (\<open>statevec_compactUnitary\<close>, \<open>statevec_controlledCompactUnitary\<close>) with the same register
  and qubits.
\<close>

theorem rotateAroundAxisConj_negates_imag:
  assumes "x_V axis \<noteq> 0 \<or> y_V axis \<noteq> 0 \<or> z_V axis \<noteq> 0"
  shows "\<exists>alpha beta.
           getAlphaBetaFromRotation angle axis = Some (alpha, beta)
         \<and> statevec_rotateAroundAxis qureg rotQubit angle axis =
             Some (statevec_compactUnitary qureg rotQubit alpha beta)
         \<and> statevec_rotateAroundAxisConj qureg rotQubit angle axis =
             Some (statevec_compactUnitary qureg rotQubit
                     (alpha\<lparr>imag_C := - imag_C alpha\<rparr>) (beta\<lparr>imag_C := - imag_C beta\<rparr>))
         \<and> statevec_controlledRotateAroundAxis qureg controlQubit targetQubit angle axis =
             Some (statevec_controlledCompactUnitary qureg controlQubit targetQubit alpha beta)
         \<and> statevec_controlledRotateAroundAxisConj qureg controlQubit targetQubit angle axis =
             Some (statevec_controlledCompactUnitary qureg controlQubit targetQubit
                     (alpha\<lparr>imag_C := - imag_C alpha\<rparr>) (beta\<lparr>imag_C := - imag_C beta\<rparr>))"
  by (simp add: getAlphaBeta_nonzero [OF assms] statevec_rotateAroundAxis_def
      statevec_rotateAroundAxisConj_def statevec_controlledRotateAroundAxis_def
      statevec_controlledRotateAroundAxisConj_def)

theorem rotateAroundAxisConj_negates_imag_witness:
  "statevec_rotateAroundAxisConj export_register 0 pi \<lparr>x_V = 0, y_V = 0, z_V = 2\<rparr>
     = Some (statevec_compactUnitary export_register 0
               \<lparr>real_C = 0, imag_C = 1\<rparr> \<lparr>real_C = 0, imag_C = 0\<rparr>)
   \<and> statevec_controlledRotateAroundAxisConj export_register 0 1 pi \<lparr>x_V = 0, y_V = 0, z_V = 2\<rparr>
     = Some (statevec_controlledCompactUnitary export_register 0 1
               \<lparr>real_C = 0, imag_C = 1\<rparr> \<lparr>real_C = 0, imag_C = 0\<rparr>)"
  using rotateAroundAxisConj_negates_imag
          [of "\<lparr>x_V = 0, y_V = 0, z_V = 2\<rparr>" pi export_register 0 0 1]
  by (auto simp add: getAlphaBetaFromRotation_def getUnitVector_def getVectorMagnitude_def)

text \<open>
  Negating the angle is a different operation: about the Y axis at angle \<open>\<pi>\<close> the
  conjugated call passes \<open>beta = (1, 0)\<close>, the call at \<open>-\<pi>\<close> passes \<open>beta = (-1, 0)\<close>.
\<close>

lemma rotateAroundAxisConj_is_not_negated_angle:
  "statevec_rotateAroundAxisConj qureg rotQubit pi \<lparr>x_V = 0, y_V = 1, z_V = 0\<rparr>
     \<noteq> statevec_rotateAroundAxis qureg rotQubit (- pi) \<lparr>x_V = 0, y_V = 1, z_V = 0\<rparr>"
  by (simp add: statevec_rotateAroundAxisConj_def statevec_rotateAroundAxis_def
      getAlphaBetaFromRotation_def getUnitVector_def getVectorMagnitude_def)

subsection \<open>The pair has norm one\<close>






subsection \<open>Rotations about the coordinate axes\<close>

text \<open>
  Claim C4. For every register, qubit and angle, \<open>statevec_rotateX/Y/Z\<close> make the kernel
  call of \<open>statevec_rotateAroundAxis\<close> with the axis \<open>(1,0,0)\<close>, \<open>(0,1,0)\<close>, \<open>(0,0,1)\<close>
  respectively, with identical parameters, and \<open>statevec_controlledRotateX/Y/Z\<close> that of
  \<open>statevec_controlledRotateAroundAxis\<close> with the same axes.
\<close>

theorem rotateXYZ_are_rotateAroundAxis:
  "statevec_rotateX qureg rotQubit angle =
     statevec_rotateAroundAxis qureg rotQubit angle \<lparr>x_V = 1, y_V = 0, z_V = 0\<rparr>
   \<and> statevec_rotateY qureg rotQubit angle =
     statevec_rotateAroundAxis qureg rotQubit angle \<lparr>x_V = 0, y_V = 1, z_V = 0\<rparr>
   \<and> statevec_rotateZ qureg rotQubit angle =
     statevec_rotateAroundAxis qureg rotQubit angle \<lparr>x_V = 0, y_V = 0, z_V = 1\<rparr>
   \<and> statevec_controlledRotateX qureg controlQubit targetQubit angle =
     statevec_controlledRotateAroundAxis qureg controlQubit targetQubit angle
       \<lparr>x_V = 1, y_V = 0, z_V = 0\<rparr>
   \<and> statevec_controlledRotateY qureg controlQubit targetQubit angle =
     statevec_controlledRotateAroundAxis qureg controlQubit targetQubit angle
       \<lparr>x_V = 0, y_V = 1, z_V = 0\<rparr>
   \<and> statevec_controlledRotateZ qureg controlQubit targetQubit angle =
     statevec_controlledRotateAroundAxis qureg controlQubit targetQubit angle
       \<lparr>x_V = 0, y_V = 0, z_V = 1\<rparr>"
  by (simp add: statevec_rotateX_def statevec_rotateY_def statevec_rotateZ_def
      statevec_controlledRotateX_def statevec_controlledRotateY_def statevec_controlledRotateZ_def)

text \<open>The kernel calls themselves, over the reals.\<close>

lemma statevec_rotateX_call:
  "statevec_rotateX qureg rotQubit angle =
     Some (statevec_compactUnitary qureg rotQubit
             \<lparr>real_C = cos (angle / 2), imag_C = 0\<rparr> \<lparr>real_C = 0, imag_C = - sin (angle / 2)\<rparr>)"
  by (simp add: statevec_rotateX_def statevec_rotateAroundAxis_def
      getAlphaBetaFromRotation_def getUnitVector_def getVectorMagnitude_def)

lemma statevec_rotateY_call:
  "statevec_rotateY qureg rotQubit angle =
     Some (statevec_compactUnitary qureg rotQubit
             \<lparr>real_C = cos (angle / 2), imag_C = 0\<rparr> \<lparr>real_C = sin (angle / 2), imag_C = 0\<rparr>)"
  by (simp add: statevec_rotateY_def statevec_rotateAroundAxis_def
      getAlphaBetaFromRotation_def getUnitVector_def getVectorMagnitude_def)

lemma statevec_rotateZ_call:
  "statevec_rotateZ qureg rotQubit angle =
     Some (statevec_compactUnitary qureg rotQubit
             \<lparr>real_C = cos (angle / 2), imag_C = - sin (angle / 2)\<rparr> \<lparr>real_C = 0, imag_C = 0\<rparr>)"
  by (simp add: statevec_rotateZ_def statevec_rotateAroundAxis_def
      getAlphaBetaFromRotation_def getUnitVector_def getVectorMagnitude_def)

subsection \<open>Phase gates\<close>

text \<open>
  Claim C5. Each phase gate passes the term of the table to \<open>statevec_phaseShiftByTerm\<close>:
  \<open>phaseShift(angle)\<close> passes \<open>(cos angle, sin angle)\<close>, Z passes \<open>(-1, 0)\<close>, S passes
  \<open>(0, 1)\<close>, T passes \<open>(1/\<surd>2, 1/\<surd>2)\<close>, the conjugate of S passes \<open>(0, -1)\<close> and the
  conjugate of T passes \<open>(1/\<surd>2, -1/\<surd>2)\<close>.
\<close>

theorem phase_gate_terms:
  "statevec_phaseShift qureg targetQubit angle =
     statevec_phaseShiftByTerm qureg targetQubit \<lparr>real_C = cos angle, imag_C = sin angle\<rparr>
   \<and> statevec_sigmaZ qureg targetQubit =
     statevec_phaseShiftByTerm qureg targetQubit \<lparr>real_C = - 1, imag_C = 0\<rparr>
   \<and> statevec_sGate qureg targetQubit =
     statevec_phaseShiftByTerm qureg targetQubit \<lparr>real_C = 0, imag_C = 1\<rparr>
   \<and> statevec_tGate qureg targetQubit =
     statevec_phaseShiftByTerm qureg targetQubit \<lparr>real_C = 1 / sqrt 2, imag_C = 1 / sqrt 2\<rparr>
   \<and> statevec_sGateConj qureg targetQubit =
     statevec_phaseShiftByTerm qureg targetQubit \<lparr>real_C = 0, imag_C = - 1\<rparr>
   \<and> statevec_tGateConj qureg targetQubit =
     statevec_phaseShiftByTerm qureg targetQubit \<lparr>real_C = 1 / sqrt 2, imag_C = - (1 / sqrt 2)\<rparr>"
  by (simp add: statevec_phaseShift_def statevec_sigmaZ_def statevec_sGate_def
      statevec_tGate_def statevec_sGateConj_def statevec_tGateConj_def)




subsection \<open>Probability of one amplitude\<close>

text \<open>
  Claim C7. For every valid register and every local index from 0 up to
  \<open>numAmpsPerChunk - 1\<close>, \<open>statevec_getProbEl\<close> returns \<open>real\<^sup>2 + imag\<^sup>2\<close> of the amplitude at
  that index, which is not negative, and leaves the register as it was; the amplitude
  \<open>(0.6, 0.8)\<close> gives 1.
\<close>

theorem statevec_getProbEl_value:
  assumes "valid_register qureg" and "0 \<le> index" and "index < numAmpsPerChunk qureg"
  shows "statevec_getProbEl qureg index =
           Inr (real_A (stateVec qureg) ! nat index * real_A (stateVec qureg) ! nat index
                  + imag_A (stateVec qureg) ! nat index * imag_A (stateVec qureg) ! nat index,
                qureg)
         \<and> 0 \<le> real_A (stateVec qureg) ! nat index * real_A (stateVec qureg) ! nat index
                  + imag_A (stateVec qureg) ! nat index * imag_A (stateVec qureg) ! nat index"
  using assms
  by (simp add: valid_register_def statevec_getProbEl_def statevec_getRealAmpEl_def
      statevec_getImagAmpEl_def array_read_def)

theorem statevec_getProbEl_value_witness:
  "statevec_getProbEl injected_register 0 = Inr (1, injected_register)"
proof -
  have v: "valid_register injected_register"
    by (simp add: valid_register_def injected_register_def)
  have i: "(0::int) \<le> 0" "0 < numAmpsPerChunk injected_register"
    by (simp_all add: injected_register_def)
  show ?thesis
    using statevec_getProbEl_value [OF v i] by (simp add: injected_register_def)
qed

subsection \<open>Export of the local amplitudes\<close>

lemma reportState_loop_trace:
  assumes "valid_register qureg" and "0 \<le> index"
  shows "reportState_loop QuEST_PREC (Some f) qureg index tr =
           Inr (tr @ concat (map (data_line QuEST_PREC f qureg)
                               [nat index ..< nat (numAmpsPerChunk qureg)]))"
  using assms
proof (induction QuEST_PREC "Some f" qureg index tr rule: reportState_loop.induct)
  case (1 QuEST_PREC qureg index tr)
  show ?case
  proof (cases "index < numAmpsPerChunk qureg")
    case False
    then show ?thesis
      by (simp add: reportState_loop.simps [of QuEST_PREC "Some f" qureg index tr])
  next
    case True
    have rd: "array_read (real_A (stateVec qureg)) index = Inr (real_A (stateVec qureg) ! nat index)"
             "array_read (imag_A (stateVec qureg)) index = Inr (imag_A (stateVec qureg) ! nat index)"
      using True "1.prems" by (simp_all add: array_read_def valid_register_def)
    have step: "(if QuEST_PREC = 1 \<or> QuEST_PREC = 2 then
              (case array_read (real_A (stateVec qureg)) index of
                 Inl e \<Rightarrow> Inl e
               | Inr re \<Rightarrow>
                   (case array_read (imag_A (stateVec qureg)) index of
                      Inl e \<Rightarrow> Inl e
                    | Inr im \<Rightarrow> fprintf (Some f) ''%.12f, %.12f\<newline>'' [re, im] tr))
            else if QuEST_PREC = 4 then
              (case array_read (real_A (stateVec qureg)) index of
                 Inl e \<Rightarrow> Inl e
               | Inr re \<Rightarrow>
                   (case array_read (imag_A (stateVec qureg)) index of
                      Inl e \<Rightarrow> Inl e
                    | Inr im \<Rightarrow> fprintf (Some f) ''%.12Lf, %.12Lf\<newline>'' [re, im] tr))
            else Inr tr) = Inr (tr @ data_line QuEST_PREC f qureg (nat index))"
      by (simp add: rd fprintf_def data_line_def)
    have ih: "reportState_loop QuEST_PREC (Some f) qureg (index + 1)
                (tr @ data_line QuEST_PREC f qureg (nat index))
         = Inr ((tr @ data_line QuEST_PREC f qureg (nat index)) @
              concat (map (data_line QuEST_PREC f qureg)
                        [nat (index + 1) ..< nat (numAmpsPerChunk qureg)]))"
      using "1.prems" by (intro "1.hyps" [OF True step]) simp_all
    have idx: "[nat index ..< nat (numAmpsPerChunk qureg)]
                = nat index # [nat (index + 1) ..< nat (numAmpsPerChunk qureg)]"
      using True "1.prems"(2) by (simp add: upt_conv_Cons nat_add_distrib)
    show ?thesis
      by (subst reportState_loop.simps) (simp add: True step ih idx)
  qed
qed

lemma reportState_trace:
  assumes "valid_register qureg"
    and "fopen_ret (''state_rank_'' @ dec_int (chunkId qureg) @ ''.csv'') = Some f"
  shows "reportState fopen_ret QuEST_PREC qureg =
           Inr ([Fopen (''state_rank_'' @ dec_int (chunkId qureg) @ ''.csv'') ''w'' (Some f)]
                @ (if chunkId qureg = 0 then [Fprintf f ''real, imag\<newline>'' []] else [])
                @ concat (map (data_line QuEST_PREC f qureg) [0 ..< nat (numAmpsPerChunk qureg)])
                @ [Fclose f])"
proof -
  define filename where "filename = ''state_rank_'' @ dec_int (chunkId qureg) @ ''.csv''"
  define tr0 where "tr0 = [Fopen filename ''w'' (Some f)]"
  define tr1 where
    "tr1 = tr0 @ (if chunkId qureg = 0 then [Fprintf f ''real, imag\<newline>'' []] else [])"
  have op: "fopen_ret filename = Some f"
    using assms(2) by (simp only: filename_def)
  have hd: "(if chunkId qureg = 0 then fprintf (Some f) ''real, imag\<newline>'' [] tr0 else Inr tr0)
              = Inr tr1"
    by (simp add: fprintf_def tr1_def)
  have lp: "reportState_loop QuEST_PREC (Some f) qureg 0 tr1 =
              Inr (tr1 @ concat (map (data_line QuEST_PREC f qureg)
                                   [0 ..< nat (numAmpsPerChunk qureg)]))"
    using reportState_loop_trace [OF assms(1), of 0 QuEST_PREC f tr1] by simp
  have "reportState fopen_ret QuEST_PREC qureg =
          Inr ((tr1 @ concat (map (data_line QuEST_PREC f qureg)
                                [0 ..< nat (numAmpsPerChunk qureg)]))
               @ [Fclose f])"
    unfolding reportState_def Let_def filename_def [symmetric] op tr0_def [symmetric] hd
    by (simp add: lp fclose_def)
  then show ?thesis
    by (simp add: tr1_def tr0_def filename_def)
qed

lemma dec_int_0: "dec_int 0 = ''0''"
  by (simp add: dec_int_def dec_nat.simps [of 0])

lemma dec_int_examples: "dec_int 12 = ''12''" "dec_int (- 5) = ''-5''" "dec_int 407 = ''407''"
  by (simp_all add: dec_int_def dec_nat.simps [of 12] dec_nat.simps [of "Suc 0"] dec_nat.simps [of 5]
      dec_nat.simps [of 407] dec_nat.simps [of 40] dec_nat.simps [of 4])

subsection \<open>The decimal numeral in the file name\<close>

lemma digit_val_digit:
  assumes "n < 10"
  shows "digit_val (''0123456789'' ! n) = Some n"
proof -
  have m: "map digit_val ''0123456789'' = map Some [0 ..< 10]"
    by (simp add: digit_val_def upt_conv_Cons)
  have "digit_val (''0123456789'' ! n) = map digit_val ''0123456789'' ! n"
    using assms by (subst nth_map) simp_all
  also have "\<dots> = Some n"
    unfolding m using assms by simp
  finally show ?thesis .
qed

lemma read_nat_append:
  "read_nat acc (xs @ [c]) =
     (case read_nat acc xs of None \<Rightarrow> None | Some m \<Rightarrow> map_option (\<lambda>d. 10 * m + d) (digit_val c))"
  by (induction xs arbitrary: acc) (auto split: option.splits)

lemma read_nat_dec_nat: "read_nat 0 (dec_nat n) = Some n"
proof (induction n rule: dec_nat.induct)
  case (1 n)
  show ?case
  proof (cases "n < 10")
    case True
    then show ?thesis
      by (subst dec_nat.simps) (simp add: digit_val_digit)
  next
    case False
    have "n mod 10 < 10" by simp
    then show ?thesis
      using False "1.IH"
      by (subst dec_nat.simps) (simp add: read_nat_append digit_val_digit)
  qed
qed

lemma dec_nat_first:
  "\<exists>c cs. dec_nat n = c # cs \<and> digit_val c \<noteq> None"
proof (induction n rule: dec_nat.induct)
  case (1 n)
  show ?case
  proof (cases "n < 10")
    case True
    then show ?thesis
      by (subst dec_nat.simps) (simp add: digit_val_digit)
  next
    case False
    then obtain c cs where "dec_nat (n div 10) = c # cs" "digit_val c \<noteq> None"
      using "1.IH" by blast
    then show ?thesis
      using False by (subst dec_nat.simps) simp
  qed
qed

lemma digit_val_minus: "digit_val CHR ''-'' = None"
  by (simp add: digit_val_def)

text \<open>The numeral that \<open>%d\<close> writes reads back as the integer it was written from.\<close>

lemma read_dec_dec_int: "read_dec (dec_int i) = Some i"
proof (cases "i < 0")
  case True
  obtain c cs where "dec_nat (nat (- i)) = c # cs" using dec_nat_first by blast
  then show ?thesis
    using True read_nat_dec_nat [of "nat (- i)"] by (simp add: read_dec_def dec_int_def)
next
  case False
  obtain c cs where c: "dec_nat (nat i) = c # cs" "digit_val c \<noteq> None"
    using dec_nat_first by blast
  then have "c \<noteq> CHR ''-''" using digit_val_minus by auto
  then show ?thesis
    using False c(1) read_nat_dec_nat [of "nat i"] by (simp add: read_dec_def dec_int_def)
qed

text \<open>
  Claim C8. For every valid register, with the precision setting 1, 2 or 4 and \<open>fopen\<close>
  returning a stream: the export opens for writing the file \<open>state_rank_<chunkId>.csv\<close>,
  whose name carries the decimal numeral of \<open>chunkId\<close>, writes the header line
  \<open>real, imag\<close> if and only if \<open>chunkId\<close> is 0, then writes exactly \<open>numAmpsPerChunk\<close> data
  lines, one pair \<open>(real, imag)\<close> per local index in ascending order, each value under the
  conversion \<open>%.12f\<close> (\<open>%.12Lf\<close> at precision 4), and closes the file.
\<close>

theorem reportState_file_format:
  assumes "valid_register qureg"
    and "QuEST_PREC = 1 \<or> QuEST_PREC = 2 \<or> QuEST_PREC = 4"
    and "fopen_ret (''state_rank_'' @ dec_int (chunkId qureg) @ ''.csv'') = Some f"
  shows "read_dec (dec_int (chunkId qureg)) = Some (chunkId qureg)
         \<and> reportState fopen_ret QuEST_PREC qureg =
             Inr ([Fopen (''state_rank_'' @ dec_int (chunkId qureg) @ ''.csv'') ''w'' (Some f)]
                  @ (if chunkId qureg = 0 then [Fprintf f ''real, imag\<newline>'' []] else [])
                  @ map (\<lambda>i. Fprintf f (if QuEST_PREC = 4 then ''%.12Lf, %.12Lf\<newline>''
                                         else ''%.12f, %.12f\<newline>'')
                                   [real_A (stateVec qureg) ! i, imag_A (stateVec qureg) ! i])
                        [0 ..< nat (numAmpsPerChunk qureg)]
                  @ [Fclose f])"
proof -
  have "concat (map (data_line QuEST_PREC f qureg) xs) =
          map (\<lambda>i. Fprintf f (if QuEST_PREC = 4 then ''%.12Lf, %.12Lf\<newline>''
                                       else ''%.12f, %.12f\<newline>'')
                                 [real_A (stateVec qureg) ! i, imag_A (stateVec qureg) ! i]) xs" for xs
    using assms(2) by (induction xs) (auto simp add: data_line_def)
  then have "reportState fopen_ret QuEST_PREC qureg =
             Inr ([Fopen (''state_rank_'' @ dec_int (chunkId qureg) @ ''.csv'') ''w'' (Some f)]
                  @ (if chunkId qureg = 0 then [Fprintf f ''real, imag\<newline>'' []] else [])
                  @ map (\<lambda>i. Fprintf f (if QuEST_PREC = 4 then ''%.12Lf, %.12Lf\<newline>''
                                         else ''%.12f, %.12f\<newline>'')
                                   [real_A (stateVec qureg) ! i, imag_A (stateVec qureg) ! i])
                        [0 ..< nat (numAmpsPerChunk qureg)]
                  @ [Fclose f])"
    using assms(1,3) by (simp add: reportState_trace)
  then show ?thesis
    using read_dec_dec_int [of "chunkId qureg"] by simp
qed

theorem reportState_file_format_witness:
  "read_dec ''12'' = Some 12
   \<and> reportState fopen_stream3 2 later_chunk_register =
       Inr [Fopen ''state_rank_12.csv'' ''w'' (Some 3),
            Fprintf 3 ''%.12f, %.12f\<newline>'' [0, - 1],
            Fclose 3]
   \<and> reportState fopen_stream3 2 export_register =
       Inr [Fopen ''state_rank_0.csv'' ''w'' (Some 3),
            Fprintf 3 ''real, imag\<newline>'' [],
            Fprintf 3 ''%.12f, %.12f\<newline>'' [1, 0],
            Fprintf 3 ''%.12f, %.12f\<newline>'' [0, 0],
            Fclose 3]"
proof -
  have p: "(2::int) = 1 \<or> (2::int) = 2 \<or> (2::int) = 4" by simp
  have v: "valid_register export_register"
    by (simp add: valid_register_def export_register_def)
  have o: "fopen_stream3 (''state_rank_'' @ dec_int (chunkId export_register) @ ''.csv'') = Some 3"
    by (simp add: fopen_stream3_def)
  have n: "[0 ..< nat (numAmpsPerChunk export_register)] = [0, 1]"
    by (simp add: export_register_def upt_conv_Cons)
  have v': "valid_register later_chunk_register"
    by (simp add: valid_register_def later_chunk_register_def)
  have o': "fopen_stream3 (''state_rank_'' @ dec_int (chunkId later_chunk_register) @ ''.csv'') = Some 3"
    by (simp add: fopen_stream3_def)
  have n': "[0 ..< nat (numAmpsPerChunk later_chunk_register)] = [0]"
    by (simp add: later_chunk_register_def)
  have c': "chunkId later_chunk_register = 12" "dec_int 12 = ''12''"
    by (simp_all add: later_chunk_register_def dec_int_examples)
  have a: "reportState fopen_stream3 2 export_register =
       Inr [Fopen ''state_rank_0.csv'' ''w'' (Some 3),
            Fprintf 3 ''real, imag\<newline>'' [],
            Fprintf 3 ''%.12f, %.12f\<newline>'' [1, 0],
            Fprintf 3 ''%.12f, %.12f\<newline>'' [0, 0],
            Fclose 3]"
    using reportState_file_format [of export_register 2 fopen_stream3 3] v p o
    by (simp add: n) (simp add: export_register_def dec_int_0)
  have b: "read_dec ''12'' = Some 12
   \<and> reportState fopen_stream3 2 later_chunk_register =
       Inr [Fopen ''state_rank_12.csv'' ''w'' (Some 3),
            Fprintf 3 ''%.12f, %.12f\<newline>'' [0, - 1],
            Fclose 3]"
    using reportState_file_format [of later_chunk_register 2 fopen_stream3 3] v' p o'
    by (simp add: n' c') (simp add: later_chunk_register_def)
  show ?thesis using a b by simp
qed


text \<open>
  Claim C9, as stated: on every execution of the export, also when \<open>fopen\<close> fails, the
  stream is valid whenever it is written to and is closed on every exit path. The code
  does not test the result of \<open>fopen\<close>: when \<open>fopen\<close> fails on chunk 0 the header is
  written to the null stream.
\<close>

theorem reportState_fopen_failure_null_stream:
  "reportState fopen_fails 2 export_register = Inl NullStream"
  by (simp add: reportState_def fopen_fails_def export_register_def fprintf_def)

text \<open>
  Claim C9, amended: on every execution of the export in which \<open>fopen\<close> returns a stream
  (on a valid register), the file is opened once, every write goes to that open stream,
  the stream is closed exactly once, as the last call, and the export returns; nothing is
  retried.
\<close>

theorem reportState_stream_discipline:
  assumes "valid_register qureg"
    and "fopen_ret (''state_rank_'' @ dec_int (chunkId qureg) @ ''.csv'') = Some f"
  shows "\<exists>ws. reportState fopen_ret QuEST_PREC qureg =
                Inr (Fopen (''state_rank_'' @ dec_int (chunkId qureg) @ ''.csv'') ''w'' (Some f)
                     # ws @ [Fclose f])
            \<and> list_all (writes_to f) ws"
proof -
  let ?ws = "(if chunkId qureg = 0 then [Fprintf f ''real, imag\<newline>'' []] else [])
                @ concat (map (data_line QuEST_PREC f qureg) [0 ..< nat (numAmpsPerChunk qureg)])"
  have "list_all (writes_to f) ?ws"
    by (auto simp add: data_line_def list_all_iff)
  moreover have "reportState fopen_ret QuEST_PREC qureg =
                Inr (Fopen (''state_rank_'' @ dec_int (chunkId qureg) @ ''.csv'') ''w'' (Some f)
                     # ?ws @ [Fclose f])"
    using assms by (simp add: reportState_trace)
  ultimately show ?thesis by blast
qed

theorem reportState_stream_discipline_witness:
  "valid_register export_register
   \<and> fopen_stream3 ''state_rank_0.csv'' = Some 3
   \<and> (\<exists>ws. reportState fopen_stream3 4 export_register =
               Inr (Fopen ''state_rank_0.csv'' ''w'' (Some 3) # ws @ [Fclose 3])
           \<and> list_all (writes_to 3) ws)"
proof -
  have v: "valid_register export_register"
    by (simp add: valid_register_def export_register_def)
  have c: "''state_rank_'' @ dec_int (chunkId export_register) @ ''.csv'' = ''state_rank_0.csv''"
    by (simp add: export_register_def dec_int_0)
  have o: "fopen_stream3 ''state_rank_0.csv'' = Some 3"
    by (simp add: fopen_stream3_def)
  show ?thesis
    using reportState_stream_discipline [of export_register fopen_stream3 3 4] v o
    unfolding c by simp
qed

subsection \<open>Only the direction of the axis matters\<close>





end
